theory Spec2Isabelle
  imports Main
begin

section \<open>Python values as the two tools see them\<close>

text \<open>
  The repository holds two LangChain tools around one HTTP endpoint:
  \<^verbatim>\<open>CellRepairAITool\<close> (file \<^verbatim>\<open>cellrepair_langchain.py\<close>, lenient about a missing key) and
  \<^verbatim>\<open>CellRepairTool\<close> (file \<^verbatim>\<open>cellrepair_langchain_tool.py\<close>, strict about it).
  Both post one request and render the decoded JSON body as text.

  Strings are byte lists holding UTF-8. A decoded JSON body is a value of \<open>json\<close>:
  Python's \<^verbatim>\<open>None\<close>, \<^verbatim>\<open>bool\<close>, \<^verbatim>\<open>int\<close>, \<^verbatim>\<open>float\<close>, \<^verbatim>\<open>str\<close>, \<^verbatim>\<open>list\<close> and \<^verbatim>\<open>dict\<close>. A dict
  is an association list in insertion order; a lookup takes the first binding of a key
  (a decoded dict has each key once).
\<close>

subsection \<open>Strings and decimal numerals\<close>

abbreviation NL :: char where "NL \<equiv> CHR 0x0A"
abbreviation QUOTE :: char where "QUOTE \<equiv> CHR 0x27"

definition digit_char :: "nat \<Rightarrow> char" where
  "digit_char d = ''0123456789'' ! (d mod 10)"

fun str_nat :: "nat \<Rightarrow> string" where
  "str_nat n = (if n < 10 then [digit_char n] else str_nat (n div 10) @ [digit_char (n mod 10)])"

declare str_nat.simps [simp del]

definition str_int :: "int \<Rightarrow> string" where
  "str_int i = (if i < 0 then CHR ''-'' # str_nat (nat (- i)) else str_nat (nat i))"

text \<open>\<^verbatim>\<open>sub in s\<close> and \<^verbatim>\<open>s.startswith(p)\<close> on strings.\<close>

definition startswith :: "string \<Rightarrow> string \<Rightarrow> bool" where
  "startswith s p = (take (length p) s = p)"

fun contains :: "string \<Rightarrow> string \<Rightarrow> bool" where
  "contains [] sub = (sub = [])"
| "contains (c # cs) sub = (startswith (c # cs) sub \<or> contains cs sub)"

definition single_line :: "string \<Rightarrow> bool" where
  "single_line s = (NL \<notin> set s)"

text \<open>
  Iterating a Python string yields its code points. In UTF-8 a code point is one lead
  byte followed by its continuation bytes (\<open>0x80\<close> to \<open>0xBF\<close>).
\<close>

definition is_continuation :: "char \<Rightarrow> bool" where
  "is_continuation c = (128 \<le> (of_char c :: nat) \<and> (of_char c :: nat) < 192)"

function code_points :: "string \<Rightarrow> string list" where
  "code_points [] = []"
| "code_points (c # cs) = (c # takeWhile is_continuation cs) # code_points (dropWhile is_continuation cs)"
  by pat_completeness auto
termination
  by (relation "measure length") (auto simp: le_imp_less_Suc length_dropWhile_le)

text \<open>
  \<^verbatim>\<open>str.strip()\<close> removes leading and trailing whitespace, code point by code point.
  The whitespace code points of \<^verbatim>\<open>str.isspace\<close>, in UTF-8: U+0009 to U+000D, U+001C to
  U+0020, U+0085, U+00A0, U+1680, U+2000 to U+200A, U+2028, U+2029, U+202F, U+205F, U+3000.
\<close>

definition is_space :: "string \<Rightarrow> bool" where
  "is_space g =
     (case map (of_char :: char \<Rightarrow> nat) g of
        [n] \<Rightarrow> (9 \<le> n \<and> n \<le> 13) \<or> (28 \<le> n \<and> n \<le> 32)
      | [a, b] \<Rightarrow> a = 0xC2 \<and> (b = 0x85 \<or> b = 0xA0)
      | [a, b, c] \<Rightarrow>
          (a = 0xE1 \<and> b = 0x9A \<and> c = 0x80) \<or>
          (a = 0xE2 \<and> b = 0x80 \<and> ((0x80 \<le> c \<and> c \<le> 0x8A) \<or> c = 0xA8 \<or> c = 0xA9 \<or> c = 0xAF)) \<or>
          (a = 0xE2 \<and> b = 0x81 \<and> c = 0x9F) \<or>
          (a = 0xE3 \<and> b = 0x80 \<and> c = 0x80)
      | _ \<Rightarrow> False)"

definition strip :: "string \<Rightarrow> string" where
  "strip s = concat (rev (dropWhile is_space (rev (dropWhile is_space (code_points s)))))"

subsection \<open>Floats\<close>

text \<open>
  A Python float is an IEEE 754 double. \<open>Finite s m e\<close> is the number
  \<open>(-1)\<^sup>s * m * 2\<^sup>e\<close>. Every operation the tools apply to a float rounds an exact
  rational to the nearest double, ties to even, so that is the one primitive.
\<close>

datatype pyfloat = Finite bool nat int | Infinity bool | NaN

fun bitlen :: "nat \<Rightarrow> nat" where
  "bitlen n = (if n = 0 then 0 else Suc (bitlen (n div 2)))"

declare bitlen.simps [simp del]

definition round_half_even :: "nat \<Rightarrow> nat \<Rightarrow> nat" where
  "round_half_even num den =
     (let q = num div den; r = num mod den
      in if 2 * r > den \<or> (2 * r = den \<and> odd q) then q + 1 else q)"

text \<open>\<open>scaled num den e\<close> is \<open>num / (den * 2\<^sup>e)\<close> rounded to an integer.\<close>

definition scaled :: "nat \<Rightarrow> nat \<Rightarrow> int \<Rightarrow> nat" where
  "scaled num den e =
     (if 0 \<le> e then round_half_even num (den * 2 ^ nat e)
      else round_half_even (num * 2 ^ nat (- e)) den)"

definition floor_scaled :: "nat \<Rightarrow> nat \<Rightarrow> int \<Rightarrow> nat" where
  "floor_scaled num den e =
     (if 0 \<le> e then num div (den * 2 ^ nat e) else (num * 2 ^ nat (- e)) div den)"

text \<open>
  The double nearest to \<open>num / den\<close> (with \<open>den > 0\<close>): a 53-bit significand, the exponent
  not below \<open>-1074\<close> (subnormals), and infinity from \<open>2\<^sup>1\<^sup>0\<^sup>2\<^sup>4\<close> on.
\<close>

definition nearest_double :: "bool \<Rightarrow> nat \<Rightarrow> nat \<Rightarrow> pyfloat" where
  "nearest_double s num den =
     (if num = 0 then Finite s 0 0
      else
        let e0 = int (bitlen num) - int (bitlen den) - 53;
            e1 = (if floor_scaled num den e0 \<ge> 2 ^ 53 then e0 + 1 else e0);
            e = max e1 (- 1074);
            m = scaled num den e
        in if e > 971 \<or> (e = 971 \<and> m \<ge> 2 ^ 53) then Infinity s else Finite s m e)"

text \<open>\<^verbatim>\<open>x * 100\<close> on a float, and \<^verbatim>\<open>float(n)\<close> on an int (which overflows with an exception).\<close>

definition float_mul :: "pyfloat \<Rightarrow> nat \<Rightarrow> pyfloat" where
  "float_mul x k =
     (case x of
        Finite s m e \<Rightarrow>
          (if 0 \<le> e then nearest_double s (m * k * 2 ^ nat e) 1
           else nearest_double s (m * k) (2 ^ nat (- e)))
      | Infinity s \<Rightarrow> (if k = 0 then NaN else Infinity s)
      | NaN \<Rightarrow> NaN)"

definition float_of_int :: "int \<Rightarrow> pyfloat option" where
  "float_of_int n =
     (case nearest_double (n < 0) (nat \<bar>n\<bar>) 1 of
        Infinity s \<Rightarrow> None
      | x \<Rightarrow> Some x)"

text \<open>
  The float a JSON number text \<open>n / 10\<^sup>k\<close> decodes to, as \<^verbatim>\<open>0.87\<close> is \<open>87 / 10\<^sup>2\<close>.
\<close>

definition float_of_decimal :: "int \<Rightarrow> nat \<Rightarrow> pyfloat" where
  "float_of_decimal n k = nearest_double (n < 0) (nat \<bar>n\<bar>) (10 ^ k)"

text \<open>
  \<^verbatim>\<open>format(x, '.0f')\<close> and \<^verbatim>\<open>format(x, '.1f')\<close>: the exact value rounded to \<open>p\<close> decimals,
  ties to even, the sign kept also in front of a zero.
\<close>

definition pad_left :: "nat \<Rightarrow> string \<Rightarrow> string" where
  "pad_left w s = replicate (w - length s) CHR ''0'' @ s"

definition format_fixed :: "nat \<Rightarrow> pyfloat \<Rightarrow> string" where
  "format_fixed p x =
     (case x of
        Finite s m e \<Rightarrow>
          (let n = scaled (m * 10 ^ p) 1 (- e);
               digits = str_nat (n div 10 ^ p) @
                        (if p = 0 then [] else CHR ''.'' # pad_left p (str_nat (n mod 10 ^ p)))
           in (if s then ''-'' else []) @ digits)
      | Infinity s \<Rightarrow> (if s then ''-inf'' else ''inf'')
      | NaN \<Rightarrow> ''nan'')"

subsection \<open>Decoded JSON and exceptions\<close>

datatype json =
    JNull
  | JBool bool
  | JInt int
  | JFloat pyfloat
  | JStr string
  | JArr "json list"
  | JObj "(string \<times> json) list"

text \<open>
  The exceptions that can arise between \<^verbatim>\<open>try\<close> and \<^verbatim>\<open>except\<close>. All of them derive from
  \<^verbatim>\<open>Exception\<close>; \<open>Timeout\<close> is \<^verbatim>\<open>requests.exceptions.Timeout\<close>, \<open>RequestError\<close> any other
  exception out of \<^verbatim>\<open>requests.post\<close>, \<open>JSONDecodeError\<close> what \<^verbatim>\<open>response.json()\<close> raises.
  Each carries its message, a \<open>KeyError\<close> its key. The message texts are CPython 3.11's.
\<close>

datatype exn =
    Timeout string
  | RequestError string
  | JSONDecodeError string
  | KeyError string
  | TypeError string
  | AttributeError string
  | ValueError string
  | OverflowError string

definition quoted :: "string \<Rightarrow> string" where
  "quoted s = [QUOTE] @ s @ [QUOTE]"

text \<open>\<^verbatim>\<open>str(e)\<close>; for a \<open>KeyError\<close> it is the \<^verbatim>\<open>repr\<close> of the key, here always a plain identifier.\<close>

fun str_exn :: "exn \<Rightarrow> string" where
  "str_exn (Timeout m) = m"
| "str_exn (RequestError m) = m"
| "str_exn (JSONDecodeError m) = m"
| "str_exn (KeyError k) = quoted k"
| "str_exn (TypeError m) = m"
| "str_exn (AttributeError m) = m"
| "str_exn (ValueError m) = m"
| "str_exn (OverflowError m) = m"

definition and_then :: "exn + 'a \<Rightarrow> ('a \<Rightarrow> exn + 'b) \<Rightarrow> exn + 'b" where
  "and_then m f = (case m of Inl e \<Rightarrow> Inl e | Inr x \<Rightarrow> f x)"

fun type_name :: "json \<Rightarrow> string" where
  "type_name JNull = ''NoneType''"
| "type_name (JBool b) = ''bool''"
| "type_name (JInt n) = ''int''"
| "type_name (JFloat x) = ''float''"
| "type_name (JStr s) = ''str''"
| "type_name (JArr xs) = ''list''"
| "type_name (JObj kvs) = ''dict''"

text \<open>\<^verbatim>\<open>v[key]\<close> with a string key.\<close>

fun getitem :: "json \<Rightarrow> string \<Rightarrow> exn + json" where
  "getitem (JObj kvs) k = (case map_of kvs k of None \<Rightarrow> Inl (KeyError k) | Some v \<Rightarrow> Inr v)"
| "getitem (JArr xs) k = Inl (TypeError ''list indices must be integers or slices, not str'')"
| "getitem (JStr s) k = Inl (TypeError (''string indices must be integers, not '' @ quoted ''str''))"
| "getitem v k = Inl (TypeError (quoted (type_name v) @ '' object is not subscriptable''))"

text \<open>\<^verbatim>\<open>v.get(key, default)\<close>: only a dict has the method.\<close>

fun get :: "json \<Rightarrow> string \<Rightarrow> json \<Rightarrow> exn + json" where
  "get (JObj kvs) k d = (case map_of kvs k of None \<Rightarrow> Inr d | Some v \<Rightarrow> Inr v)"
| "get v k d = Inl (AttributeError (quoted (type_name v) @ '' object has no attribute '' @ quoted ''get''))"

text \<open>\<^verbatim>\<open>key in v\<close> with a string key.\<close>

fun has_key :: "string \<Rightarrow> json \<Rightarrow> exn + bool" where
  "has_key k (JObj kvs) = Inr (map_of kvs k \<noteq> None)"
| "has_key k (JArr xs) = Inr (JStr k \<in> set xs)"
| "has_key k (JStr s) = Inr (contains s k)"
| "has_key k v = Inl (TypeError (''argument of type '' @ quoted (type_name v) @ '' is not iterable''))"

text \<open>Truth value of a decoded JSON value.\<close>

fun truthy :: "json \<Rightarrow> bool" where
  "truthy JNull = False"
| "truthy (JBool b) = b"
| "truthy (JInt n) = (n \<noteq> 0)"
| "truthy (JFloat (Finite s m e)) = (m \<noteq> 0)"
| "truthy (JFloat x) = True"
| "truthy (JStr s) = (s \<noteq> [])"
| "truthy (JArr xs) = (xs \<noteq> [])"
| "truthy (JObj kvs) = (kvs \<noteq> [])"

text \<open>What a \<^verbatim>\<open>for\<close> loop over the value visits: elements, code points, keys.\<close>

fun iterate :: "json \<Rightarrow> exn + json list" where
  "iterate (JArr xs) = Inr xs"
| "iterate (JStr s) = Inr (map JStr (code_points s))"
| "iterate (JObj kvs) = Inr (map (JStr \<circ> fst) kvs)"
| "iterate v = Inl (TypeError (quoted (type_name v) @ '' object is not iterable''))"

text \<open>\<^verbatim>\<open>v * 100\<close>: numbers multiply (a bool is an int), strings and lists repeat.\<close>

fun times_int :: "json \<Rightarrow> nat \<Rightarrow> exn + json" where
  "times_int (JBool b) k = Inr (JInt ((if b then 1 else 0) * int k))"
| "times_int (JInt n) k = Inr (JInt (n * int k))"
| "times_int (JFloat x) k = Inr (JFloat (float_mul x k))"
| "times_int (JStr s) k = Inr (JStr (concat (replicate k s)))"
| "times_int (JArr xs) k = Inr (JArr (concat (replicate k xs)))"
| "times_int v k =
     Inl (TypeError (''unsupported operand type(s) for *: '' @ quoted (type_name v) @ '' and '' @ quoted ''int''))"

text \<open>
  \<^verbatim>\<open>format(v, '.0f')\<close> and \<^verbatim>\<open>format(v, '.1f')\<close>: an int is converted to a float first, a
  string knows no code \<^verbatim>\<open>f\<close>, the other types take no format string at all.
\<close>

fun format_f :: "nat \<Rightarrow> json \<Rightarrow> exn + string" where
  "format_f p (JFloat x) = Inr (format_fixed p x)"
| "format_f p (JInt n) =
     (case float_of_int n of
        None \<Rightarrow> Inl (OverflowError ''int too large to convert to float'')
      | Some x \<Rightarrow> Inr (format_fixed p x))"
| "format_f p (JBool b) = Inr (format_fixed p (Finite False (if b then 1 else 0) 0))"
| "format_f p (JStr s) =
     Inl (ValueError (''Unknown format code '' @ quoted ''f'' @ '' for object of type '' @ quoted ''str''))"
| "format_f p v =
     Inl (TypeError (''unsupported format string passed to '' @ type_name v @ ''.__format__''))"

subsection \<open>Rendering a value inside an f-string\<close>

text \<open>
  \<^verbatim>\<open>f"{v}"\<close> is \<^verbatim>\<open>str(v)\<close>: a string as it is, every other value by its \<^verbatim>\<open>repr\<close>. Two parts of
  \<^verbatim>\<open>repr\<close> belong to the Python runtime and are taken as parameters: the shortest
  round-trip numeral of a float, and the quoting and escaping of a string inside a
  list or dict.
\<close>

record runtime =
  float_repr :: "pyfloat \<Rightarrow> string"
  str_repr :: "string \<Rightarrow> string"

fun join :: "string \<Rightarrow> string list \<Rightarrow> string" where
  "join sep [] = []"
| "join sep [x] = x"
| "join sep (x # y # ys) = x @ sep @ join sep (y # ys)"

fun repr :: "runtime \<Rightarrow> json \<Rightarrow> string" where
  "repr rt JNull = ''None''"
| "repr rt (JBool b) = (if b then ''True'' else ''False'')"
| "repr rt (JInt n) = str_int n"
| "repr rt (JFloat x) = float_repr rt x"
| "repr rt (JStr s) = str_repr rt s"
| "repr rt (JArr xs) = ''['' @ join '', '' (map (repr rt) xs) @ '']''"
| "repr rt (JObj kvs) =
     ''{'' @ join '', '' (map (\<lambda>kv. str_repr rt (fst kv) @ '': '' @ repr rt (snd kv)) kvs) @ ''}''"

definition str :: "runtime \<Rightarrow> json \<Rightarrow> string" where
  "str rt v = (case v of JStr s \<Rightarrow> s | _ \<Rightarrow> repr rt v)"

text \<open>
  \<^verbatim>\<open>for i, q in enumerate(qs, 1): result += f"  {i}. {q}\n"\<close>, the text the loop appends.
\<close>

fun numbered :: "runtime \<Rightarrow> nat \<Rightarrow> json list \<Rightarrow> string" where
  "numbered rt i [] = []"
| "numbered rt i (q # qs) = ''  '' @ str_nat i @ ''. '' @ str rt q @ [NL] @ numbered rt (i + 1) qs"

section \<open>The HTTP exchange\<close>

text \<open>
  \<^verbatim>\<open>requests.post(url, headers=..., json=..., timeout=30)\<close>. The network is a function
  from the requests sent so far and the present request to what comes back; the state
  threaded through a call is the list of requests sent.
\<close>

record request =
  url :: string
  authorization :: string
  content_type :: string
  system :: string
  query :: string
  context_dict :: "(string \<times> json) list"
  timeout :: nat

datatype body = Malformed string | Decoded json

record response =
  status_code :: int
  body :: body

datatype outcome = TimedOut string | Failed string | Responded response

type_synonym network = "request list \<Rightarrow> request \<Rightarrow> outcome"

definition requests_post :: "network \<Rightarrow> request \<Rightarrow> request list \<Rightarrow> (exn + response) \<times> request list" where
  "requests_post net req sent =
     ((case net sent req of
         TimedOut m \<Rightarrow> Inl (Timeout m)
       | Failed m \<Rightarrow> Inl (RequestError m)
       | Responded r \<Rightarrow> Inr r),
      sent @ [req])"

definition response_json :: "response \<Rightarrow> exn + json" where
  "response_json r = (case body r of Malformed m \<Rightarrow> Inl (JSONDecodeError m) | Decoded v \<Rightarrow> Inr v)"

definition getenv :: "(string \<rightharpoonup> string) \<Rightarrow> string \<Rightarrow> string \<Rightarrow> string" where
  "getenv env name d = (case env name of None \<Rightarrow> d | Some v \<Rightarrow> v)"

section \<open>CellRepairAITool (cellrepair\_langchain.py)\<close>

record CellRepairAITool =
  api_key :: string
  api_url :: string

text \<open>
  \<^verbatim>\<open>__init__\<close>: \<^verbatim>\<open>self.api_key = api_key or os.getenv("CELLREPAIR_API_KEY", "")\<close>, and two
  printed lines when the key is empty. The result is the tool and what was printed.
  The keyword arguments passed on to the framework's base class are not modelled.
\<close>

definition CellRepairAITool_init :: "(string \<rightharpoonup> string) \<Rightarrow> string option \<Rightarrow> CellRepairAITool \<times> string list" where
  "CellRepairAITool_init env key =
     (let k = (case key of
                 None \<Rightarrow> getenv env ''CELLREPAIR_API_KEY'' []
               | Some a \<Rightarrow> if a \<noteq> [] then a else getenv env ''CELLREPAIR_API_KEY'' []);
          self = \<lparr>api_key = k, api_url = ''https://cellrepair.ai/api/v1/collaborate''\<rparr>
      in (self,
          if CellRepairAITool.api_key self = []
          then [(CHR 0xE2 # CHR 0x9A # CHR 0xA0 # CHR 0xEF # CHR 0xB8 # CHR 0x8F #
                  ''  No API key provided. Get one at: https://cellrepair.ai/api/''),
                ''   Free tier: 1000 calls/month!'']
          else []))"

text \<open>Lines 104 to 109: the predicted follow-up questions.\<close>

definition predictive_section :: "runtime \<Rightarrow> json \<Rightarrow> string \<Rightarrow> exn + string" where
  "predictive_section rt data result =
     and_then (has_key ''predictive_intelligence'' data) (\<lambda>present.
       if present then
         and_then (getitem data ''predictive_intelligence'') (\<lambda>pi.
         and_then (get pi ''you_will_probably_ask_next'' (JArr [])) (\<lambda>next_q.
           if truthy next_q then
             and_then (iterate next_q) (\<lambda>qs.
               Inr (result @ [NL] @ ''You'll probably ask next:'' @ [NL] @ numbered rt 1 qs))
           else Inr result))
       else Inr result)"

text \<open>Lines 112 to 115: the note that both systems improved.\<close>

definition learning_section :: "json \<Rightarrow> string \<Rightarrow> exn + string" where
  "learning_section data result =
     and_then (has_key ''learning_exchange'' data) (\<lambda>present.
       if present then
         and_then (getitem data ''learning_exchange'') (\<lambda>learn.
         and_then (get learn ''both_systems_improved'' JNull) (\<lambda>improved.
           if truthy improved then
             Inr (result @ [NL] @ [CHR 0xE2, CHR 0x9C, CHR 0xA8] @
                  '' Both LangChain and CellRepair.AI got smarter from this!'' @ [NL])
           else Inr result))
       else Inr result)"

text \<open>Lines 95 to 117: decode the body and format it.\<close>

definition CellRepairAITool_format :: "runtime \<Rightarrow> response \<Rightarrow> exn + string" where
  "CellRepairAITool_format rt r =
     and_then (response_json r) (\<lambda>data.
     and_then (getitem data ''insight'') (\<lambda>insight.
     and_then (getitem insight ''recommendation'') (\<lambda>recommendation.
     and_then (getitem insight ''confidence'') (\<lambda>confidence.
     and_then (times_int confidence 100) (\<lambda>c100.
     and_then (format_f 0 c100) (\<lambda>percent.
     and_then (getitem data ''agents_consulted'') (\<lambda>agents.
     and_then (predictive_section rt data
                 (''CellRepair.AI Network Response:'' @ [NL, NL] @
                  str rt recommendation @ [NL, NL] @
                  ''Confidence: '' @ percent @ ''%'' @ [NL] @
                  ''Agents consulted: '' @ str rt agents @ [NL])) (\<lambda>result.
     learning_section data result))))))))"

text \<open>Lines 89 to 117: the status code decides before the body is read.\<close>

definition CellRepairAITool_respond :: "runtime \<Rightarrow> response \<Rightarrow> exn + string" where
  "CellRepairAITool_respond rt r =
     (if status_code r = 401 then Inr ''Error: Invalid API key. Get one at https://cellrepair.ai/api/''
      else if status_code r \<noteq> 200 then Inr (''Error: API returned '' @ str_int (status_code r))
      else CellRepairAITool_format rt r)"

text \<open>Lines 119 to 122: the two \<^verbatim>\<open>except\<close> clauses.\<close>

definition CellRepairAITool_except :: "exn + string \<Rightarrow> exn + string" where
  "CellRepairAITool_except outcome =
     (case outcome of
        Inr s \<Rightarrow> Inr s
      | Inl (Timeout m) \<Rightarrow> Inr ''Error: Request timed out. Try again.''
      | Inl e \<Rightarrow> Inr (''Error: '' @ str_exn e))"

text \<open>
  \<^verbatim>\<open>_run\<close>. The result is what the call returns (\<open>Inr\<close>) or raises (\<open>Inl\<close>), and the requests
  sent after it. The argument \<^verbatim>\<open>run_manager\<close> is never read.
\<close>

definition CellRepairAITool_request :: "CellRepairAITool \<Rightarrow> string \<Rightarrow> request" where
  "CellRepairAITool_request self q =
     \<lparr>url = api_url self,
      authorization = ''Bearer '' @ CellRepairAITool.api_key self,
      content_type = ''application/json'',
      system = ''LangChain'',
      query = q,
      context_dict = [],
      timeout = 30\<rparr>"

definition CellRepairAITool_run ::
  "runtime \<Rightarrow> network \<Rightarrow> CellRepairAITool \<Rightarrow> string \<Rightarrow> request list \<Rightarrow> (exn + string) \<times> request list" where
  "CellRepairAITool_run rt net self q sent =
     (if CellRepairAITool.api_key self = []
      then (Inr ''Error: No API key. Get free key at https://cellrepair.ai/api/ (1000 calls/month free!)'',
            sent)
      else
        let (r, sent') = requests_post net (CellRepairAITool_request self q) sent
        in (CellRepairAITool_except (and_then r (CellRepairAITool_respond rt)), sent'))"

text \<open>\<^verbatim>\<open>_arun\<close>: \<^verbatim>\<open>return self._run(query, run_manager)\<close>.\<close>

definition CellRepairAITool_arun ::
  "runtime \<Rightarrow> network \<Rightarrow> CellRepairAITool \<Rightarrow> string \<Rightarrow> request list \<Rightarrow> (exn + string) \<times> request list" where
  "CellRepairAITool_arun rt net self q sent = CellRepairAITool_run rt net self q sent"

section \<open>CellRepairTool (cellrepair\_langchain\_tool.py)\<close>

record CellRepairTool =
  api_key :: string
  api_endpoint :: string

text \<open>
  \<^verbatim>\<open>__init__\<close>: the environment is read only when \<^verbatim>\<open>api_key is None\<close>, and an empty key
  raises \<^verbatim>\<open>ValueError\<close>.
\<close>

definition CellRepairTool_init :: "(string \<rightharpoonup> string) \<Rightarrow> string option \<Rightarrow> exn + CellRepairTool" where
  "CellRepairTool_init env key =
     (let k = (case key of None \<Rightarrow> getenv env ''CELLREPAIR_API_KEY'' [] | Some a \<Rightarrow> a);
          self = \<lparr>api_key = k, api_endpoint = ''https://cellrepair.ai/api/v1/collaborate''\<rparr>
      in if CellRepairTool.api_key self = []
         then Inl (ValueError
                (''API key required! Get one at: https://cellrepair.ai/api/?utm_source=langchain&utm_medium=integration'' @
                 [NL] @ ''Or set CELLREPAIR_API_KEY environment variable.''))
         else Inr self)"

text \<open>Lines 120 to 147: decode the body and format it; every field is read with a default.\<close>

definition CellRepairTool_format :: "runtime \<Rightarrow> response \<Rightarrow> exn + string" where
  "CellRepairTool_format rt r =
     and_then (response_json r) (\<lambda>data.
     and_then (get data ''insight'' (JObj [])) (\<lambda>insight.
     and_then (get insight ''recommendation'' (JStr ''No recommendation available'')) (\<lambda>recommendation.
     and_then (get insight ''confidence'' (JInt 0)) (\<lambda>confidence.
     and_then (get data ''agents_consulted'' (JInt 0)) (\<lambda>agents.
     and_then (get data ''predictive_intelligence'' (JObj [])) (\<lambda>predictive.
     and_then (get predictive ''you_will_probably_ask_next'' (JArr [])) (\<lambda>next_questions.
     and_then (times_int confidence 100) (\<lambda>c100.
     and_then (format_f 1 c100) (\<lambda>percent.
     and_then (get insight ''implementation_time'' (JStr ''Unknown'')) (\<lambda>implementation_time.
     and_then (get insight ''roi_estimate'' (JStr ''Unknown'')) (\<lambda>roi_estimate.
     and_then
       (let result = ''CellRepair.AI Analysis:'' @ [NL, NL] @
                     str rt recommendation @ [NL, NL] @
                     ''Confidence: '' @ percent @ ''%'' @ [NL] @
                     ''Agents Consulted: '' @ str rt agents @ [NL] @
                     ''Implementation Time: '' @ str rt implementation_time @ [NL] @
                     ''ROI Estimate: '' @ str rt roi_estimate @ [NL]
        in if truthy next_questions then
             and_then (iterate next_questions) (\<lambda>qs.
               Inr (result @ [NL, NL] @ ''Predictive Intelligence (3 steps ahead):'' @ [NL] @
                    numbered rt 1 qs))
           else Inr result) (\<lambda>result.
     Inr (strip result)))))))))))))"

definition CellRepairTool_respond :: "runtime \<Rightarrow> response \<Rightarrow> exn + string" where
  "CellRepairTool_respond rt r =
     (if status_code r = 401
      then Inr ''Error: Invalid API key. Get a free key at https://cellrepair.ai/api/?utm_source=langchain''
      else if status_code r \<noteq> 200 then Inr (''Error: API returned status '' @ str_int (status_code r))
      else CellRepairTool_format rt r)"

definition CellRepairTool_except :: "exn + string \<Rightarrow> exn + string" where
  "CellRepairTool_except outcome =
     (case outcome of
        Inr s \<Rightarrow> Inr s
      | Inl (Timeout m) \<Rightarrow> Inr ''Error: Request timed out. Please try again.''
      | Inl e \<Rightarrow> Inr (''Error: '' @ str_exn e))"

text \<open>
  \<^verbatim>\<open>_run\<close>, with \<^verbatim>\<open>context or {}\<close> as the request's context. The whole body is inside
  \<^verbatim>\<open>try\<close>.
\<close>

definition CellRepairTool_request :: "CellRepairTool \<Rightarrow> string \<Rightarrow> (string \<times> json) list option \<Rightarrow> request" where
  "CellRepairTool_request self q ctx =
     \<lparr>url = api_endpoint self,
      authorization = ''Bearer '' @ CellRepairTool.api_key self,
      content_type = ''application/json'',
      system = ''LangChain'',
      query = q,
      context_dict = (case ctx of None \<Rightarrow> [] | Some c \<Rightarrow> c),
      timeout = 30\<rparr>"

definition CellRepairTool_run ::
  "runtime \<Rightarrow> network \<Rightarrow> CellRepairTool \<Rightarrow> string \<Rightarrow> (string \<times> json) list option \<Rightarrow> request list
     \<Rightarrow> (exn + string) \<times> request list" where
  "CellRepairTool_run rt net self q ctx sent =
     (let (r, sent') = requests_post net (CellRepairTool_request self q ctx) sent
      in (CellRepairTool_except (and_then r (CellRepairTool_respond rt)), sent'))"

section \<open>Fixtures for closed examples\<close>

text \<open>
  A transport stub that answers every request alike, a runtime whose two functions
  are stand-ins (the examples render neither a float by \<^verbatim>\<open>repr\<close> nor a nested string),
  and the success body of the formatting example: recommendation \<^verbatim>\<open>Use caching\<close>,
  confidence \<^verbatim>\<open>0.87\<close>, 42 agents, two predicted questions.
\<close>

definition always :: "outcome \<Rightarrow> network" where
  "always out = (\<lambda>sent req. out)"

definition sample_runtime :: runtime where
  "sample_runtime = \<lparr>float_repr = format_fixed 1, str_repr = quoted\<rparr>"

definition sample_body :: json where
  "sample_body =
     JObj [(''insight'', JObj [(''recommendation'', JStr ''Use caching''),
                              (''confidence'', JFloat (float_of_decimal 87 2))]),
           (''agents_consulted'', JInt 42),
           (''predictive_intelligence'',
              JObj [(''you_will_probably_ask_next'', JArr [JStr ''Which cache?'', JStr ''What TTL?''])])]"


section \<open>Properties\<close>

subsection \<open>Helper facts\<close>

lemma startswith_append: "startswith (p @ s) p"
  by (simp add: startswith_def)

lemma contains_prefix: "contains (x @ s) x"
proof (cases "x @ s")
  case Nil
  then show ?thesis by simp
next
  case (Cons c cs)
  have "startswith (x @ s) x" by (rule startswith_append)
  with Cons show ?thesis by simp
qed

lemma contains_append: "contains (p @ x @ s) x"
  by (induction p) (simp_all add: contains_prefix)

lemma digit_char_not_NL: "NL \<noteq> digit_char d"
proof -
  have "d mod 10 < length ''0123456789''" by simp
  then have "digit_char d \<in> set ''0123456789''"
    unfolding digit_char_def by (rule nth_mem)
  then show ?thesis by auto
qed

lemma str_nat_single_line: "NL \<notin> set (str_nat n)"
proof (induction n rule: str_nat.induct)
  case (1 n)
  show ?case
  proof (cases "n < 10")
    case True
    then show ?thesis by (subst str_nat.simps) (simp add: digit_char_not_NL)
  next
    case False
    with 1 show ?thesis by (subst str_nat.simps) (simp add: digit_char_not_NL)
  qed
qed

lemma str_int_single_line: "NL \<notin> set (str_int i)"
  by (simp add: str_int_def str_nat_single_line)

lemma float_087: "float_of_decimal 87 2 = Finite False 7836263351624663 (- 53)"
  by (simp add: float_of_decimal_def nearest_double_def bitlen.simps floor_scaled_def scaled_def
      round_half_even_def Let_def)

lemma float_087_times_100: "float_mul (float_of_decimal 87 2) 100 = Finite False 6122080743456768 (- 46)"
  by (simp add: float_087 float_mul_def nearest_double_def bitlen.simps floor_scaled_def scaled_def
      round_half_even_def Let_def)

lemma percent_0: "format_fixed 0 (float_mul (float_of_decimal 87 2) 100) = ''87''"
  by (simp add: float_087_times_100 format_fixed_def scaled_def round_half_even_def Let_def
      str_nat.simps digit_char_def)

lemma percent_1: "format_fixed (Suc 0) (float_mul (float_of_decimal 87 2) 100) = ''87.0''"
  by (simp add: float_087_times_100 format_fixed_def scaled_def round_half_even_def Let_def
      str_nat.simps digit_char_def pad_left_def)

lemma AITool_format_sample:
  "body r = Decoded sample_body \<Longrightarrow> CellRepairAITool_format rt r = Inr
    (''CellRepair.AI Network Response:'' @ [NL, NL] @ ''Use caching'' @ [NL, NL] @
     ''Confidence: 87%'' @ [NL] @ ''Agents consulted: 42'' @ [NL, NL] @
     ''You'll probably ask next:'' @ [NL] @ ''  1. Which cache?'' @ [NL] @ ''  2. What TTL?'' @ [NL])"
  by (simp add: CellRepairAITool_format_def response_json_def sample_body_def and_then_def percent_0
     predictive_section_def learning_section_def str_def str_int_def str_nat.simps digit_char_def)

lemma Tool_format_sample:
  "body r = Decoded sample_body \<Longrightarrow> CellRepairTool_format rt r = Inr
    (''CellRepair.AI Analysis:'' @ [NL, NL] @ ''Use caching'' @ [NL, NL] @
     ''Confidence: 87.0%'' @ [NL] @ ''Agents Consulted: 42'' @ [NL] @
     ''Implementation Time: Unknown'' @ [NL] @ ''ROI Estimate: Unknown'' @ [NL, NL, NL] @
     ''Predictive Intelligence (3 steps ahead):'' @ [NL] @
     ''  1. Which cache?'' @ [NL] @ ''  2. What TTL?'')"
  by (simp add: CellRepairTool_format_def response_json_def sample_body_def and_then_def percent_1
     str_def str_int_def str_nat.simps digit_char_def strip_def is_space_def is_continuation_def)

lemma AITool_except_returns: "\<exists>s. CellRepairAITool_except x = Inr s"
  by (auto simp: CellRepairAITool_except_def split: sum.splits exn.splits)

lemma Tool_except_returns: "\<exists>s. CellRepairTool_except x = Inr s"
  by (auto simp: CellRepairTool_except_def split: sum.splits exn.splits)

lemma AITool_run_responded:
  assumes "CellRepairAITool.api_key a \<noteq> []"
    and "net sent (CellRepairAITool_request a q) = Responded r"
  shows "fst (CellRepairAITool_run rt net a q sent) = CellRepairAITool_except (CellRepairAITool_respond rt r)"
  using assms by (simp add: CellRepairAITool_run_def requests_post_def and_then_def)

lemma Tool_run_responded:
  assumes "net sent (CellRepairTool_request t q ctx) = Responded r"
  shows "fst (CellRepairTool_run rt net t q ctx sent) = CellRepairTool_except (CellRepairTool_respond rt r)"
  using assms by (simp add: CellRepairTool_run_def requests_post_def and_then_def)

lemma AITool_401:
  "status_code r = 401 \<Longrightarrow> CellRepairAITool_except (CellRepairAITool_respond rt r) =
     Inr ''Error: Invalid API key. Get one at https://cellrepair.ai/api/''"
  by (simp add: CellRepairAITool_respond_def CellRepairAITool_except_def)

lemma Tool_401:
  "status_code r = 401 \<Longrightarrow> CellRepairTool_except (CellRepairTool_respond rt r) =
     Inr ''Error: Invalid API key. Get a free key at https://cellrepair.ai/api/?utm_source=langchain''"
  by (simp add: CellRepairTool_respond_def CellRepairTool_except_def)

lemma AITool_other_status:
  "status_code r \<noteq> 401 \<Longrightarrow> status_code r \<noteq> 200 \<Longrightarrow>
   CellRepairAITool_except (CellRepairAITool_respond rt r) =
     Inr (''Error: API returned '' @ str_int (status_code r))"
  by (simp add: CellRepairAITool_respond_def CellRepairAITool_except_def)

lemma Tool_other_status:
  "status_code r \<noteq> 401 \<Longrightarrow> status_code r \<noteq> 200 \<Longrightarrow>
   CellRepairTool_except (CellRepairTool_respond rt r) =
     Inr (''Error: API returned status '' @ str_int (status_code r))"
  by (simp add: CellRepairTool_respond_def CellRepairTool_except_def)

lemma AITool_run_no_key:
  "CellRepairAITool.api_key a = [] \<Longrightarrow> fst (CellRepairAITool_run rt net a q sent) =
     Inr ''Error: No API key. Get free key at https://cellrepair.ai/api/ (1000 calls/month free!)''"
  by (simp add: CellRepairAITool_run_def)

lemma AITool_run_timed_out:
  assumes "CellRepairAITool.api_key a \<noteq> []"
    and "net sent (CellRepairAITool_request a q) = TimedOut m"
  shows "fst (CellRepairAITool_run rt net a q sent) = Inr ''Error: Request timed out. Try again.''"
  using assms
  by (simp add: CellRepairAITool_run_def requests_post_def and_then_def CellRepairAITool_except_def)

lemma AITool_run_failed:
  assumes "CellRepairAITool.api_key a \<noteq> []"
    and "net sent (CellRepairAITool_request a q) = Failed m"
  shows "fst (CellRepairAITool_run rt net a q sent) = Inr (''Error: '' @ m)"
  using assms
  by (simp add: CellRepairAITool_run_def requests_post_def and_then_def CellRepairAITool_except_def)

lemma Tool_run_timed_out:
  assumes "net sent (CellRepairTool_request t q ctx) = TimedOut m"
  shows "fst (CellRepairTool_run rt net t q ctx sent) = Inr ''Error: Request timed out. Please try again.''"
  using assms
  by (simp add: CellRepairTool_run_def requests_post_def and_then_def CellRepairTool_except_def)

lemma Tool_run_failed:
  assumes "net sent (CellRepairTool_request t q ctx) = Failed m"
  shows "fst (CellRepairTool_run rt net t q ctx sent) = Inr (''Error: '' @ m)"
  using assms
  by (simp add: CellRepairTool_run_def requests_post_def and_then_def CellRepairTool_except_def)

lemma AITool_except_raised:
  "CellRepairAITool_except (Inl e) = Inr s \<Longrightarrow> startswith s ''Error: ''"
  by (cases e) (auto simp: CellRepairAITool_except_def startswith_def)

lemma Tool_except_raised:
  "CellRepairTool_except (Inl e) = Inr s \<Longrightarrow> startswith s ''Error: ''"
  by (cases e) (auto simp: CellRepairTool_except_def startswith_def)

lemma AITool_200:
  "status_code r = 200 \<Longrightarrow> CellRepairAITool_respond rt r = CellRepairAITool_format rt r"
  by (simp add: CellRepairAITool_respond_def)

lemma Tool_200:
  "status_code r = 200 \<Longrightarrow> CellRepairTool_respond rt r = CellRepairTool_format rt r"
  by (simp add: CellRepairTool_respond_def)

lemma no_key_message_shape:
  "startswith ''Error: No API key. Get free key at https://cellrepair.ai/api/ (1000 calls/month free!)'' ''Error: '' \<and>
   single_line ''Error: No API key. Get free key at https://cellrepair.ai/api/ (1000 calls/month free!)'' \<and>
   contains ''Error: No API key. Get free key at https://cellrepair.ai/api/ (1000 calls/month free!)''
     ''https://cellrepair.ai/api/''"
  by (simp add: startswith_def single_line_def)

lemma invalid_key_message_shape:
  "startswith ''Error: Invalid API key. Get one at https://cellrepair.ai/api/'' ''Error: '' \<and>
   single_line ''Error: Invalid API key. Get one at https://cellrepair.ai/api/'' \<and>
   contains ''Error: Invalid API key. Get one at https://cellrepair.ai/api/'' ''https://cellrepair.ai/api/'' \<and>
   startswith ''Error: Invalid API key. Get a free key at https://cellrepair.ai/api/?utm_source=langchain'' ''Error: '' \<and>
   single_line ''Error: Invalid API key. Get a free key at https://cellrepair.ai/api/?utm_source=langchain'' \<and>
   contains ''Error: Invalid API key. Get a free key at https://cellrepair.ai/api/?utm_source=langchain''
     ''https://cellrepair.ai/api/''"
  by (simp add: startswith_def single_line_def)

lemma status_message_shape:
  "startswith (''Error: API returned '' @ str_int n) ''Error: '' \<and>
   single_line (''Error: API returned '' @ str_int n) \<and>
   startswith (''Error: API returned status '' @ str_int n) ''Error: '' \<and>
   single_line (''Error: API returned status '' @ str_int n)"
  by (simp add: startswith_def single_line_def str_int_single_line)

lemma timeout_message_shape:
  "startswith ''Error: Request timed out. Try again.'' ''Error: '' \<and>
   single_line ''Error: Request timed out. Try again.'' \<and>
   startswith ''Error: Request timed out. Please try again.'' ''Error: '' \<and>
   single_line ''Error: Request timed out. Please try again.''"
  by (simp add: startswith_def single_line_def)

lemma AITool_error_shape:
  assumes out: "net sent (CellRepairAITool_request a q) = out"
  shows "\<exists>s. fst (CellRepairAITool_run rt net a q sent) = Inr s \<and>
           (CellRepairAITool.api_key a = [] \<longrightarrow>
              startswith s ''Error: '' \<and> single_line s \<and> contains s ''https://cellrepair.ai/api/'') \<and>
           (case out of
              TimedOut m \<Rightarrow> startswith s ''Error: '' \<and> single_line s
            | Failed m \<Rightarrow> startswith s ''Error: '' \<and> (CellRepairAITool.api_key a \<noteq> [] \<longrightarrow> s = ''Error: '' @ m)
            | Responded r \<Rightarrow>
                if status_code r = 401
                then startswith s ''Error: '' \<and> single_line s \<and> contains s ''https://cellrepair.ai/api/''
                else if status_code r \<noteq> 200 then startswith s ''Error: '' \<and> single_line s
                else (\<exists>e. CellRepairAITool_format rt r = Inl e) \<longrightarrow> startswith s ''Error: '')"
proof (cases "CellRepairAITool.api_key a = []")
  case True
  show ?thesis
    using no_key_message_shape True
    by (simp only: AITool_run_no_key[OF True]) (simp split: outcome.splits del: contains.simps)
next
  case False
  show ?thesis
  proof (cases out)
    case (TimedOut m)
    with out have "net sent (CellRepairAITool_request a q) = TimedOut m" by simp
    from AITool_run_timed_out[where net=net and sent=sent, OF False this] TimedOut False
    show ?thesis using timeout_message_shape by (simp del: contains.simps)
  next
    case (Failed m)
    with out have "net sent (CellRepairAITool_request a q) = Failed m" by simp
    from AITool_run_failed[where net=net and sent=sent, OF False this] Failed False
    show ?thesis by (simp add: startswith_def del: contains.simps)
  next
    case (Responded r)
    with out have r: "net sent (CellRepairAITool_request a q) = Responded r" by simp
    note run = AITool_run_responded[where net=net and sent=sent and rt=rt, OF False r]
    consider "status_code r = 401" | "status_code r \<noteq> 401" "status_code r \<noteq> 200" | "status_code r = 200"
      by blast
    then show ?thesis
    proof cases
      case 1
      then show ?thesis
        using invalid_key_message_shape Responded False
        by (simp only: run AITool_401[OF 1]) (simp del: contains.simps)
    next
      case 2
      then show ?thesis
        using status_message_shape[of "status_code r"] Responded False
        by (simp only: run AITool_other_status[OF 2]) (simp del: contains.simps)
    next
      case 3
      obtain s where s: "CellRepairAITool_except (CellRepairAITool_format rt r) = Inr s"
        using AITool_except_returns by blast
      have "(\<exists>e. CellRepairAITool_format rt r = Inl e) \<longrightarrow> startswith s ''Error: ''"
        using s AITool_except_raised by auto
      with s 3 Responded False show ?thesis
        by (simp add: run AITool_200[OF 3] del: contains.simps)
    qed
  qed
qed

lemma Tool_error_shape:
  assumes out: "net sent (CellRepairTool_request t q ctx) = out"
  shows "\<exists>s. fst (CellRepairTool_run rt net t q ctx sent) = Inr s \<and>
           (case out of
              TimedOut m \<Rightarrow> startswith s ''Error: '' \<and> single_line s
            | Failed m \<Rightarrow> s = ''Error: '' @ m
            | Responded r \<Rightarrow>
                if status_code r = 401
                then startswith s ''Error: '' \<and> single_line s \<and> contains s ''https://cellrepair.ai/api/''
                else if status_code r \<noteq> 200 then startswith s ''Error: '' \<and> single_line s
                else (\<exists>e. CellRepairTool_format rt r = Inl e) \<longrightarrow> startswith s ''Error: '')"
proof (cases out)
  case (TimedOut m)
  with out have "net sent (CellRepairTool_request t q ctx) = TimedOut m" by simp
  from Tool_run_timed_out[where net=net and sent=sent, OF this] TimedOut
  show ?thesis using timeout_message_shape by (simp del: contains.simps)
next
  case (Failed m)
  with out have "net sent (CellRepairTool_request t q ctx) = Failed m" by simp
  from Tool_run_failed[where net=net and sent=sent, OF this] Failed
  show ?thesis by (simp del: contains.simps)
next
  case (Responded r)
  with out have r: "net sent (CellRepairTool_request t q ctx) = Responded r" by simp
  note run = Tool_run_responded[where net=net and sent=sent and rt=rt, OF r]
  consider "status_code r = 401" | "status_code r \<noteq> 401" "status_code r \<noteq> 200" | "status_code r = 200"
    by blast
  then show ?thesis
  proof cases
    case 1
    then show ?thesis
      using invalid_key_message_shape Responded
      by (simp only: run Tool_401[OF 1]) (simp del: contains.simps)
  next
    case 2
    then show ?thesis
      using status_message_shape[of "status_code r"] Responded
      by (simp only: run Tool_other_status[OF 2]) (simp del: contains.simps)
  next
    case 3
    obtain s where s: "CellRepairTool_except (CellRepairTool_format rt r) = Inr s"
      using Tool_except_returns by blast
    have "(\<exists>e. CellRepairTool_format rt r = Inl e) \<longrightarrow> startswith s ''Error: ''"
      using s Tool_except_raised by auto
    with s 3 Responded show ?thesis
      by (simp add: run Tool_200[OF 3] del: contains.simps)
  qed
qed

subsection \<open>Claims\<close>

text \<open>
  C1. Whatever the query, the credential, the state of the network and what the network
  answers (a timeout, any other failure, a response of any status with any body, decodable
  or not), \<^verbatim>\<open>_run\<close> of either tool returns a string and raises nothing.
\<close>

theorem run_never_raises:
  "(\<exists>s. fst (CellRepairAITool_run rt net a q sent) = Inr s) \<and>
   (\<exists>s. fst (CellRepairTool_run rt net' t q' ctx sent') = Inr s)"
  by (simp add: CellRepairAITool_run_def CellRepairTool_run_def requests_post_def
        AITool_except_returns Tool_except_returns)

theorem run_never_raises_witness:
  "(\<exists>s. fst (CellRepairAITool_run sample_runtime (always (TimedOut ''read timed out''))
              \<lparr>CellRepairAITool.api_key = ''secret'', api_url = ''https://cellrepair.ai/api/v1/collaborate''\<rparr>
              ''How to scale?'' []) = Inr s) \<and>
   (\<exists>s. fst (CellRepairTool_run sample_runtime (always (Failed ''connection reset''))
              \<lparr>CellRepairTool.api_key = ''secret'', api_endpoint = ''https://cellrepair.ai/api/v1/collaborate''\<rparr>
              ''How to scale?'' None []) = Inr s)"
  by (rule run_never_raises)

text \<open>
  C7. A call of \<^verbatim>\<open>_run\<close> sends exactly one request, the one built from the tool and the
  query, and never a second one; the lenient tool with an empty credential sends none
  and returns its missing-key error.
\<close>

theorem requests_per_call:
  "snd (CellRepairAITool_run rt net a q sent) =
     (if CellRepairAITool.api_key a = [] then sent else sent @ [CellRepairAITool_request a q]) \<and>
   (CellRepairAITool.api_key a = [] \<longrightarrow>
      fst (CellRepairAITool_run rt net a q sent) =
        Inr ''Error: No API key. Get free key at https://cellrepair.ai/api/ (1000 calls/month free!)'') \<and>
   snd (CellRepairTool_run rt net' t q' ctx sent') = sent' @ [CellRepairTool_request t q' ctx]"
  by (simp add: CellRepairAITool_run_def CellRepairTool_run_def requests_post_def)

theorem requests_per_call_witness:
  "CellRepairAITool.api_key \<lparr>CellRepairAITool.api_key = [], api_url = ''https://cellrepair.ai/api/v1/collaborate''\<rparr> = [] \<and>
   snd (CellRepairAITool_run sample_runtime (always (TimedOut ''read timed out''))
          \<lparr>CellRepairAITool.api_key = [], api_url = ''https://cellrepair.ai/api/v1/collaborate''\<rparr>
          ''How to scale?'' []) = [] \<and>
   fst (CellRepairAITool_run sample_runtime (always (TimedOut ''read timed out''))
          \<lparr>CellRepairAITool.api_key = [], api_url = ''https://cellrepair.ai/api/v1/collaborate''\<rparr>
          ''How to scale?'' []) =
     Inr ''Error: No API key. Get free key at https://cellrepair.ai/api/ (1000 calls/month free!)'' \<and>
   length (snd (CellRepairTool_run sample_runtime (always (TimedOut ''read timed out''))
          \<lparr>CellRepairTool.api_key = ''secret'', api_endpoint = ''https://cellrepair.ai/api/v1/collaborate''\<rparr>
          ''How to scale?'' None [])) = 1"
  using requests_per_call[where rt=sample_runtime and net="always (TimedOut ''read timed out'')"
      and a="\<lparr>CellRepairAITool.api_key = [], api_url = ''https://cellrepair.ai/api/v1/collaborate''\<rparr>"
      and q="''How to scale?''" and sent="[]" and net'="always (TimedOut ''read timed out'')"
      and t="\<lparr>CellRepairTool.api_key = ''secret'', api_endpoint = ''https://cellrepair.ai/api/v1/collaborate''\<rparr>"
      and q'="''How to scale?''" and ctx=None and sent'="[]"]
  by simp

text \<open>
  C9. The asynchronous entry point of the lenient tool returns what the synchronous one
  returns and sends what it sends, for every query, credential and network.
\<close>

theorem arun_is_run:
  "CellRepairAITool_arun rt net a q sent = CellRepairAITool_run rt net a q sent"
  by (simp add: CellRepairAITool_arun_def)

theorem arun_is_run_witness:
  "CellRepairAITool_arun sample_runtime (always (TimedOut ''read timed out''))
     \<lparr>CellRepairAITool.api_key = ''secret'', api_url = ''https://cellrepair.ai/api/v1/collaborate''\<rparr>
     ''How to scale?'' [] =
   CellRepairAITool_run sample_runtime (always (TimedOut ''read timed out''))
     \<lparr>CellRepairAITool.api_key = ''secret'', api_url = ''https://cellrepair.ai/api/v1/collaborate''\<rparr>
     ''How to scale?'' []"
  by (rule arun_is_run)

text \<open>
  C2, as the code has it. A non-empty explicit key wins over the environment in both
  tools. Without an explicit key the environment variable is used; the strict tool
  then still needs it non-empty. With neither, the strict tool fails construction and
  the lenient one keeps an empty credential.
\<close>

theorem credential_resolution:
  "(k \<noteq> [] \<longrightarrow>
      CellRepairAITool.api_key (fst (CellRepairAITool_init env1 (Some k))) = k \<and>
      (\<exists>t. CellRepairTool_init env1 (Some k) = Inr t \<and> CellRepairTool.api_key t = k)) \<and>
   (env2 ''CELLREPAIR_API_KEY'' = Some e \<longrightarrow>
      CellRepairAITool.api_key (fst (CellRepairAITool_init env2 None)) = e \<and>
      (e \<noteq> [] \<longrightarrow> (\<exists>t. CellRepairTool_init env2 None = Inr t \<and> CellRepairTool.api_key t = e))) \<and>
   (env3 ''CELLREPAIR_API_KEY'' = None \<longrightarrow>
      CellRepairAITool.api_key (fst (CellRepairAITool_init env3 None)) = [] \<and>
      (\<exists>m. CellRepairTool_init env3 None = Inl (ValueError m)))"
  by (simp add: CellRepairAITool_init_def CellRepairTool_init_def getenv_def)

theorem credential_resolution_witness:
  "''explicit'' \<noteq> [] \<and>
   [''CELLREPAIR_API_KEY'' \<mapsto> ''from-env''] ''CELLREPAIR_API_KEY'' = Some ''from-env'' \<and> ''from-env'' \<noteq> [] \<and>
   [''HOME'' \<mapsto> ''/root''] ''CELLREPAIR_API_KEY'' = None \<and>
   CellRepairAITool.api_key
     (fst (CellRepairAITool_init [''CELLREPAIR_API_KEY'' \<mapsto> ''from-env''] (Some ''explicit''))) = ''explicit'' \<and>
   (\<exists>t. CellRepairTool_init [''CELLREPAIR_API_KEY'' \<mapsto> ''from-env''] (Some ''explicit'') = Inr t \<and>
        CellRepairTool.api_key t = ''explicit'') \<and>
   CellRepairAITool.api_key
     (fst (CellRepairAITool_init [''CELLREPAIR_API_KEY'' \<mapsto> ''from-env''] None)) = ''from-env'' \<and>
   (\<exists>t. CellRepairTool_init [''CELLREPAIR_API_KEY'' \<mapsto> ''from-env''] None = Inr t \<and>
        CellRepairTool.api_key t = ''from-env'') \<and>
   CellRepairAITool.api_key (fst (CellRepairAITool_init [''HOME'' \<mapsto> ''/root''] None)) = [] \<and>
   (\<exists>m. CellRepairTool_init [''HOME'' \<mapsto> ''/root''] None = Inl (ValueError m))"
proof -
  have h1: "''explicit'' \<noteq> []" by simp
  have h2: "[''CELLREPAIR_API_KEY'' \<mapsto> ''from-env''] ''CELLREPAIR_API_KEY'' = Some ''from-env''" by simp
  have h3: "''from-env'' \<noteq> []" by simp
  have h4: "[''HOME'' \<mapsto> ''/root''] ''CELLREPAIR_API_KEY'' = None" by simp
  from credential_resolution[where k="''explicit''" and ?env1.0="[''CELLREPAIR_API_KEY'' \<mapsto> ''from-env'']"
      and ?env2.0="[''CELLREPAIR_API_KEY'' \<mapsto> ''from-env'']" and e="''from-env''" and ?env3.0="[''HOME'' \<mapsto> ''/root'']"]
    h1 h2 h3 h4
  show ?thesis by blast
qed

text \<open>
  C2 as stated fails for an explicit empty string: the lenient tool then takes the
  environment value instead of the argument.
\<close>

theorem explicit_empty_key_loses:
  "CellRepairAITool.api_key
     (fst (CellRepairAITool_init [''CELLREPAIR_API_KEY'' \<mapsto> ''from-env''] (Some ''''))) \<noteq> ''''"
  by (simp add: CellRepairAITool_init_def getenv_def)

text \<open>
  C3, at the input where the lenient tool departs from it. A 200 body that holds the
  recommendation but no \<^verbatim>\<open>confidence\<close> (or no \<^verbatim>\<open>agents_consulted\<close>) makes the lenient tool
  return the text of a \<^verbatim>\<open>KeyError\<close> instead of a formatted answer with a placeholder: it
  reads both fields by subscript. The strict tool reads every field with a default and
  formats the same kind of body with \<^verbatim>\<open>0.0%\<close>, \<^verbatim>\<open>0\<close> and \<^verbatim>\<open>Unknown\<close>.
\<close>

theorem missing_confidence_is_an_error:
  "fst (CellRepairAITool_run rt
          (always (Responded \<lparr>status_code = 200, body = Decoded
             (JObj [(''insight'', JObj [(''recommendation'', JStr ''Use caching'')]),
                    (''agents_consulted'', JInt 42)])\<rparr>))
          \<lparr>CellRepairAITool.api_key = ''secret'', api_url = ''https://cellrepair.ai/api/v1/collaborate''\<rparr>
          ''How to scale?'' []) = Inr (''Error: '' @ [QUOTE] @ ''confidence'' @ [QUOTE]) \<and>
   fst (CellRepairAITool_run rt
          (always (Responded \<lparr>status_code = 200, body = Decoded
             (JObj [(''insight'', JObj [(''recommendation'', JStr ''Use caching''),
                                      (''confidence'', JFloat (float_of_decimal 87 2))])])\<rparr>))
          \<lparr>CellRepairAITool.api_key = ''secret'', api_url = ''https://cellrepair.ai/api/v1/collaborate''\<rparr>
          ''How to scale?'' []) = Inr (''Error: '' @ [QUOTE] @ ''agents_consulted'' @ [QUOTE]) \<and>
   fst (CellRepairTool_run rt
          (always (Responded \<lparr>status_code = 200, body = Decoded
             (JObj [(''insight'', JObj [(''recommendation'', JStr ''Use caching'')])])\<rparr>))
          \<lparr>CellRepairTool.api_key = ''secret'', api_endpoint = ''https://cellrepair.ai/api/v1/collaborate''\<rparr>
          ''How to scale?'' None []) =
     Inr (''CellRepair.AI Analysis:'' @ [NL, NL] @ ''Use caching'' @ [NL, NL] @
          ''Confidence: 0.0%'' @ [NL] @ ''Agents Consulted: 0'' @ [NL] @
          ''Implementation Time: Unknown'' @ [NL] @ ''ROI Estimate: Unknown'')"
  by (simp add: CellRepairAITool_run_def CellRepairTool_run_def requests_post_def always_def
        and_then_def CellRepairAITool_respond_def CellRepairTool_respond_def
        CellRepairAITool_except_def CellRepairTool_except_def
        CellRepairAITool_format_def CellRepairTool_format_def response_json_def
        percent_0 quoted_def
        float_of_int_def nearest_double_def format_fixed_def scaled_def round_half_even_def pad_left_def
        str_def str_int_def str_nat.simps digit_char_def strip_def is_space_def is_continuation_def)

text \<open>
  C4. For the 200 body with recommendation \<^verbatim>\<open>Use caching\<close>, confidence \<^verbatim>\<open>0.87\<close>, 42 agents and
  the two predicted questions, the string returned contains the recommendation, the
  confidence as \<^verbatim>\<open>87%\<close> (lenient tool, no decimals) or \<^verbatim>\<open>87.0%\<close> (strict tool, one decimal),
  the number 42, and the two questions numbered 1. and 2. in their order.
\<close>

theorem success_formatting:
  assumes "CellRepairAITool.api_key a \<noteq> []"
    and "net sent (CellRepairAITool_request a q) = Responded r"
    and "net' sent' (CellRepairTool_request t q' ctx) = Responded r"
    and "status_code r = 200"
    and "body r = Decoded sample_body"
  shows "\<exists>s s'. fst (CellRepairAITool_run rt net a q sent) = Inr s \<and>
                fst (CellRepairTool_run rt net' t q' ctx sent') = Inr s' \<and>
                contains s ''Use caching'' \<and> contains s ''Confidence: 87%'' \<and>
                contains s ''Agents consulted: 42'' \<and>
                contains s (''  1. Which cache?'' @ [NL] @ ''  2. What TTL?'') \<and>
                contains s' ''Use caching'' \<and> contains s' ''Confidence: 87.0%'' \<and>
                contains s' ''Agents Consulted: 42'' \<and>
                contains s' (''  1. Which cache?'' @ [NL] @ ''  2. What TTL?'')"
proof -
  have "fst (CellRepairAITool_run rt net a q sent) = Inr
          (''CellRepair.AI Network Response:'' @ [NL, NL] @ ''Use caching'' @ [NL, NL] @
           ''Confidence: 87%'' @ [NL] @ ''Agents consulted: 42'' @ [NL, NL] @
           ''You'll probably ask next:'' @ [NL] @ ''  1. Which cache?'' @ [NL] @ ''  2. What TTL?'' @ [NL])"
    by (simp only: AITool_run_responded[where net=net and sent=sent, OF assms(1,2)]
          AITool_200[OF assms(4)] AITool_format_sample[OF assms(5)])
       (simp add: CellRepairAITool_except_def)
  moreover have "fst (CellRepairTool_run rt net' t q' ctx sent') = Inr
          (''CellRepair.AI Analysis:'' @ [NL, NL] @ ''Use caching'' @ [NL, NL] @
           ''Confidence: 87.0%'' @ [NL] @ ''Agents Consulted: 42'' @ [NL] @
           ''Implementation Time: Unknown'' @ [NL] @ ''ROI Estimate: Unknown'' @ [NL, NL, NL] @
           ''Predictive Intelligence (3 steps ahead):'' @ [NL] @
           ''  1. Which cache?'' @ [NL] @ ''  2. What TTL?'')"
    by (simp only: Tool_run_responded[where net=net' and sent=sent', OF assms(3)]
          Tool_200[OF assms(4)] Tool_format_sample[OF assms(5)])
       (simp add: CellRepairTool_except_def)
  ultimately show ?thesis
    by (simp add: startswith_def)
qed

theorem success_formatting_witness:
  "CellRepairAITool.api_key \<lparr>CellRepairAITool.api_key = ''secret'', api_url = ''https://cellrepair.ai/api/v1/collaborate''\<rparr> \<noteq> [] \<and>
   status_code \<lparr>status_code = 200, body = Decoded sample_body\<rparr> = 200 \<and>
   (\<exists>s s'.
      fst (CellRepairAITool_run sample_runtime
             (always (Responded \<lparr>status_code = 200, body = Decoded sample_body\<rparr>))
             \<lparr>CellRepairAITool.api_key = ''secret'', api_url = ''https://cellrepair.ai/api/v1/collaborate''\<rparr>
             ''How to scale?'' []) = Inr s \<and>
      fst (CellRepairTool_run sample_runtime
             (always (Responded \<lparr>status_code = 200, body = Decoded sample_body\<rparr>))
             \<lparr>CellRepairTool.api_key = ''secret'', api_endpoint = ''https://cellrepair.ai/api/v1/collaborate''\<rparr>
             ''How to scale?'' None []) = Inr s' \<and>
      contains s ''Confidence: 87%'' \<and> contains s' ''Confidence: 87.0%'')"
proof -
  let ?r = "\<lparr>status_code = 200, body = Decoded sample_body\<rparr>"
  let ?a = "\<lparr>CellRepairAITool.api_key = ''secret'', api_url = ''https://cellrepair.ai/api/v1/collaborate''\<rparr>"
  let ?t = "\<lparr>CellRepairTool.api_key = ''secret'', api_endpoint = ''https://cellrepair.ai/api/v1/collaborate''\<rparr>"
  have h1: "CellRepairAITool.api_key ?a \<noteq> []" by simp
  have h2: "always (Responded ?r) [] (CellRepairAITool_request ?a ''How to scale?'') = Responded ?r"
    by (simp add: always_def)
  have h3: "always (Responded ?r) [] (CellRepairTool_request ?t ''How to scale?'' None) = Responded ?r"
    by (simp add: always_def)
  have h4: "status_code ?r = 200" by simp
  have h5: "body ?r = Decoded sample_body" by simp
  from success_formatting[where net="always (Responded ?r)" and sent="[]"
      and net'="always (Responded ?r)" and sent'="[]" and rt=sample_runtime, OF h1 h2 h3 h4 h5] h1 h4
  show ?thesis by (simp del: contains.simps) blast
qed

text \<open>
  C5. When the request is answered with status 401, the string returned by either tool
  contains \<^verbatim>\<open>Invalid\<close> and \<^verbatim>\<open>key\<close>; when it is answered with any other status than 200,
  the string contains that status code in decimal. (The lenient tool sends the request
  only with a non-empty key.)
\<close>

theorem status_code_classification:
  assumes "CellRepairAITool.api_key a \<noteq> []"
    and "net sent (CellRepairAITool_request a q) = Responded r"
    and "net' sent' (CellRepairTool_request t q' ctx) = Responded r"
    and "status_code r \<noteq> 200"
  shows "\<exists>s s'. fst (CellRepairAITool_run rt net a q sent) = Inr s \<and>
                fst (CellRepairTool_run rt net' t q' ctx sent') = Inr s' \<and>
                (if status_code r = 401
                 then contains s ''Invalid'' \<and> contains s ''key'' \<and>
                      contains s' ''Invalid'' \<and> contains s' ''key''
                 else contains s (str_int (status_code r)) \<and>
                      contains s' (str_int (status_code r)))"
proof (cases "status_code r = 401")
  case True
  have "fst (CellRepairAITool_run rt net a q sent) =
          Inr ''Error: Invalid API key. Get one at https://cellrepair.ai/api/''"
    by (simp only: AITool_run_responded[where net=net and sent=sent, OF assms(1,2)] AITool_401[OF True])
  moreover have "fst (CellRepairTool_run rt net' t q' ctx sent') =
          Inr ''Error: Invalid API key. Get a free key at https://cellrepair.ai/api/?utm_source=langchain''"
    by (simp only: Tool_run_responded[where net=net' and sent=sent', OF assms(3)] Tool_401[OF True])
  ultimately show ?thesis
    using True by (simp add: startswith_def)
next
  case False
  have "fst (CellRepairAITool_run rt net a q sent) =
          Inr (''Error: API returned '' @ str_int (status_code r))"
    by (simp only: AITool_run_responded[where net=net and sent=sent, OF assms(1,2)] AITool_other_status[OF False assms(4)])
  moreover have "fst (CellRepairTool_run rt net' t q' ctx sent') =
          Inr (''Error: API returned status '' @ str_int (status_code r))"
    by (simp only: Tool_run_responded[where net=net' and sent=sent', OF assms(3)] Tool_other_status[OF False assms(4)])
  moreover have "contains (''Error: API returned '' @ str_int (status_code r) @ []) (str_int (status_code r))"
       "contains (''Error: API returned status '' @ str_int (status_code r) @ []) (str_int (status_code r))"
    by (rule contains_append)+
  ultimately show ?thesis
    using False by (simp del: contains.simps)
qed

theorem status_code_classification_witness:
  "CellRepairAITool.api_key \<lparr>CellRepairAITool.api_key = ''secret'', api_url = ''https://cellrepair.ai/api/v1/collaborate''\<rparr> \<noteq> [] \<and>
   status_code \<lparr>status_code = 500, body = Malformed ''no JSON''\<rparr> \<noteq> 200 \<and>
   (\<exists>s s'.
      fst (CellRepairAITool_run sample_runtime
             (always (Responded \<lparr>status_code = 500, body = Malformed ''no JSON''\<rparr>))
             \<lparr>CellRepairAITool.api_key = ''secret'', api_url = ''https://cellrepair.ai/api/v1/collaborate''\<rparr>
             ''How to scale?'' []) = Inr s \<and>
      fst (CellRepairTool_run sample_runtime
             (always (Responded \<lparr>status_code = 500, body = Malformed ''no JSON''\<rparr>))
             \<lparr>CellRepairTool.api_key = ''secret'', api_endpoint = ''https://cellrepair.ai/api/v1/collaborate''\<rparr>
             ''How to scale?'' None []) = Inr s' \<and>
      contains s (str_int 500) \<and> contains s' (str_int 500))"
proof -
  let ?r = "\<lparr>status_code = 500, body = Malformed ''no JSON''\<rparr>"
  let ?a = "\<lparr>CellRepairAITool.api_key = ''secret'', api_url = ''https://cellrepair.ai/api/v1/collaborate''\<rparr>"
  let ?t = "\<lparr>CellRepairTool.api_key = ''secret'', api_endpoint = ''https://cellrepair.ai/api/v1/collaborate''\<rparr>"
  have h1: "CellRepairAITool.api_key ?a \<noteq> []" by simp
  have h2: "always (Responded ?r) [] (CellRepairAITool_request ?a ''How to scale?'') = Responded ?r"
    by (simp add: always_def)
  have h3: "always (Responded ?r) [] (CellRepairTool_request ?t ''How to scale?'' None) = Responded ?r"
    by (simp add: always_def)
  have h4: "status_code ?r \<noteq> 200" by simp
  from status_code_classification[where net="always (Responded ?r)" and sent="[]"
         and net'="always (Responded ?r)" and sent'="[]" and rt=sample_runtime, OF h1 h2 h3 h4] h1 h4
  show ?thesis by simp
qed

text \<open>
  C6, as the code has it. Every error result begins with \<^verbatim>\<open>Error: \<close>. The missing-key
  result of the lenient tool and the invalid-key result (status 401) are single lines
  that name \<^verbatim>\<open>https://cellrepair.ai/api/\<close>; the results for another status than 200 and for
  a timeout are single lines; the result for any other exception is \<^verbatim>\<open>Error: \<close> followed
  by the message of the exception.
\<close>

theorem error_results:
  assumes "net sent (CellRepairAITool_request a q) = out"
    and "net' sent' (CellRepairTool_request t q' ctx) = out"
  shows "(\<exists>s. fst (CellRepairAITool_run rt net a q sent) = Inr s \<and>
           (CellRepairAITool.api_key a = [] \<longrightarrow>
              startswith s ''Error: '' \<and> single_line s \<and> contains s ''https://cellrepair.ai/api/'') \<and>
           (case out of
              TimedOut m \<Rightarrow> startswith s ''Error: '' \<and> single_line s
            | Failed m \<Rightarrow> startswith s ''Error: '' \<and> (CellRepairAITool.api_key a \<noteq> [] \<longrightarrow> s = ''Error: '' @ m)
            | Responded r \<Rightarrow>
                if status_code r = 401
                then startswith s ''Error: '' \<and> single_line s \<and> contains s ''https://cellrepair.ai/api/''
                else if status_code r \<noteq> 200 then startswith s ''Error: '' \<and> single_line s
                else (\<exists>e. CellRepairAITool_format rt r = Inl e) \<longrightarrow> startswith s ''Error: '')) \<and>
         (\<exists>s. fst (CellRepairTool_run rt net' t q' ctx sent') = Inr s \<and>
           (case out of
              TimedOut m \<Rightarrow> startswith s ''Error: '' \<and> single_line s
            | Failed m \<Rightarrow> s = ''Error: '' @ m
            | Responded r \<Rightarrow>
                if status_code r = 401
                then startswith s ''Error: '' \<and> single_line s \<and> contains s ''https://cellrepair.ai/api/''
                else if status_code r \<noteq> 200 then startswith s ''Error: '' \<and> single_line s
                else (\<exists>e. CellRepairTool_format rt r = Inl e) \<longrightarrow> startswith s ''Error: ''))"
  using AITool_error_shape[where net=net and sent=sent and rt=rt, OF assms(1)]
        Tool_error_shape[where net=net' and sent=sent' and rt=rt, OF assms(2)]
  by (rule conjI)

theorem error_results_witness:
  "(\<exists>s. fst (CellRepairAITool_run sample_runtime
              (always (Responded \<lparr>status_code = 401, body = Malformed ''no JSON''\<rparr>))
              \<lparr>CellRepairAITool.api_key = [], api_url = ''https://cellrepair.ai/api/v1/collaborate''\<rparr>
              ''How to scale?'' []) = Inr s \<and>
        startswith s ''Error: '' \<and> single_line s \<and> contains s ''https://cellrepair.ai/api/'') \<and>
   (\<exists>s. fst (CellRepairTool_run sample_runtime
              (always (Responded \<lparr>status_code = 401, body = Malformed ''no JSON''\<rparr>))
              \<lparr>CellRepairTool.api_key = ''secret'', api_endpoint = ''https://cellrepair.ai/api/v1/collaborate''\<rparr>
              ''How to scale?'' None []) = Inr s \<and>
        startswith s ''Error: '' \<and> single_line s \<and> contains s ''https://cellrepair.ai/api/'')"
proof -
  let ?r = "\<lparr>status_code = 401, body = Malformed ''no JSON''\<rparr>"
  let ?a = "\<lparr>CellRepairAITool.api_key = [], api_url = ''https://cellrepair.ai/api/v1/collaborate''\<rparr>"
  let ?t = "\<lparr>CellRepairTool.api_key = ''secret'', api_endpoint = ''https://cellrepair.ai/api/v1/collaborate''\<rparr>"
  have h1: "always (Responded ?r) [] (CellRepairAITool_request ?a ''How to scale?'') = Responded ?r"
    by (simp add: always_def)
  have h2: "always (Responded ?r) [] (CellRepairTool_request ?t ''How to scale?'' None) = Responded ?r"
    by (simp add: always_def)
  from error_results[where net="always (Responded ?r)" and sent="[]" and net'="always (Responded ?r)"
      and sent'="[]" and rt=sample_runtime, OF h1 h2]
  show ?thesis by (simp del: contains.simps)
qed

text \<open>
  C6 as stated fails: the results for a status other than 200 and 401 and for a timeout
  do not say where to obtain a key.
\<close>

theorem status_error_names_no_key_page:
  "fst (CellRepairAITool_run sample_runtime
          (always (Responded \<lparr>status_code = 500, body = Malformed ''no JSON''\<rparr>))
          \<lparr>CellRepairAITool.api_key = ''secret'', api_url = ''https://cellrepair.ai/api/v1/collaborate''\<rparr>
          ''How to scale?'' []) = Inr ''Error: API returned 500'' \<and>
   \<not> contains ''Error: API returned 500'' ''cellrepair.ai'' \<and>
   fst (CellRepairTool_run sample_runtime
          (always (TimedOut ''read timed out''))
          \<lparr>CellRepairTool.api_key = ''secret'', api_endpoint = ''https://cellrepair.ai/api/v1/collaborate''\<rparr>
          ''How to scale?'' None []) = Inr ''Error: Request timed out. Please try again.'' \<and>
   \<not> contains ''Error: Request timed out. Please try again.'' ''cellrepair.ai''"
  by (simp add: CellRepairAITool_run_def CellRepairTool_run_def requests_post_def always_def
        and_then_def CellRepairAITool_respond_def CellRepairAITool_except_def
        CellRepairTool_except_def str_int_def str_nat.simps digit_char_def startswith_def)

text \<open>
  C8, as the code has it. The query is not inspected: with the empty query either tool
  sends the one request it sends for any query, with an empty query field (the lenient
  tool with an empty key sends none), and against a transport that answers every
  request alike the result is the same as for any other query.
\<close>

theorem query_not_validated:
  "snd (CellRepairTool_run rt net t [] ctx sent) = sent @ [CellRepairTool_request t [] ctx] \<and>
   query (CellRepairTool_request t [] ctx) = [] \<and>
   (CellRepairAITool.api_key a \<noteq> [] \<longrightarrow>
      snd (CellRepairAITool_run rt net a [] sent) = sent @ [CellRepairAITool_request a []]) \<and>
   query (CellRepairAITool_request a []) = [] \<and>
   fst (CellRepairTool_run rt (always out) t [] ctx sent) =
     fst (CellRepairTool_run rt (always out) t q ctx sent) \<and>
   fst (CellRepairAITool_run rt (always out) a [] sent) =
     fst (CellRepairAITool_run rt (always out) a q sent)"
  by (simp add: CellRepairTool_run_def CellRepairAITool_run_def requests_post_def always_def
        CellRepairTool_request_def CellRepairAITool_request_def)

theorem query_not_validated_witness:
  "CellRepairAITool.api_key \<lparr>CellRepairAITool.api_key = ''secret'', api_url = ''https://cellrepair.ai/api/v1/collaborate''\<rparr> \<noteq> [] \<and>
   snd (CellRepairAITool_run sample_runtime (always (TimedOut ''read timed out''))
          \<lparr>CellRepairAITool.api_key = ''secret'', api_url = ''https://cellrepair.ai/api/v1/collaborate''\<rparr>
          [] []) =
     [CellRepairAITool_request
        \<lparr>CellRepairAITool.api_key = ''secret'', api_url = ''https://cellrepair.ai/api/v1/collaborate''\<rparr> []] \<and>
   snd (CellRepairTool_run sample_runtime (always (TimedOut ''read timed out''))
          \<lparr>CellRepairTool.api_key = ''secret'', api_endpoint = ''https://cellrepair.ai/api/v1/collaborate''\<rparr>
          [] None []) =
     [CellRepairTool_request
        \<lparr>CellRepairTool.api_key = ''secret'', api_endpoint = ''https://cellrepair.ai/api/v1/collaborate''\<rparr> [] None]"
  using query_not_validated[where rt=sample_runtime and net="always (TimedOut ''read timed out'')"
      and a="\<lparr>CellRepairAITool.api_key = ''secret'', api_url = ''https://cellrepair.ai/api/v1/collaborate''\<rparr>"
      and t="\<lparr>CellRepairTool.api_key = ''secret'', api_endpoint = ''https://cellrepair.ai/api/v1/collaborate''\<rparr>"
      and ctx=None and sent="[]"]
  by simp

text \<open>
  C8 as stated fails: with the empty query the strict tool sends a request, and when the
  answer is a 200 with a well-formed body the result is the formatted answer, not an
  error string.
\<close>

theorem empty_query_is_sent:
  "snd (CellRepairTool_run sample_runtime
          (always (Responded \<lparr>status_code = 200, body = Decoded sample_body\<rparr>))
          \<lparr>CellRepairTool.api_key = ''secret'', api_endpoint = ''https://cellrepair.ai/api/v1/collaborate''\<rparr>
          '''' None []) =
     [\<lparr>url = ''https://cellrepair.ai/api/v1/collaborate'', authorization = ''Bearer secret'',
       content_type = ''application/json'', system = ''LangChain'', query = '''',
       context_dict = [], timeout = 30\<rparr>] \<and>
   fst (CellRepairTool_run sample_runtime
          (always (Responded \<lparr>status_code = 200, body = Decoded sample_body\<rparr>))
          \<lparr>CellRepairTool.api_key = ''secret'', api_endpoint = ''https://cellrepair.ai/api/v1/collaborate''\<rparr>
          '''' None []) =
     Inr (''CellRepair.AI Analysis:'' @ [NL, NL] @ ''Use caching'' @ [NL, NL] @
          ''Confidence: 87.0%'' @ [NL] @ ''Agents Consulted: 42'' @ [NL] @
          ''Implementation Time: Unknown'' @ [NL] @ ''ROI Estimate: Unknown'' @ [NL, NL, NL] @
          ''Predictive Intelligence (3 steps ahead):'' @ [NL] @
          ''  1. Which cache?'' @ [NL] @ ''  2. What TTL?'') \<and>
   \<not> startswith
       (''CellRepair.AI Analysis:'' @ [NL, NL] @ ''Use caching'' @ [NL, NL] @
          ''Confidence: 87.0%'' @ [NL] @ ''Agents Consulted: 42'' @ [NL] @
          ''Implementation Time: Unknown'' @ [NL] @ ''ROI Estimate: Unknown'' @ [NL, NL, NL] @
          ''Predictive Intelligence (3 steps ahead):'' @ [NL] @
          ''  1. Which cache?'' @ [NL] @ ''  2. What TTL?'') ''Error: ''"
  by (simp add: CellRepairTool_run_def requests_post_def always_def CellRepairTool_request_def
        and_then_def CellRepairTool_respond_def CellRepairTool_except_def Tool_format_sample
        startswith_def)

text \<open>
  C10. With an explicit empty string and the environment variable set to a non-empty
  value, the lenient tool takes the environment value, while the strict tool does not
  look at the environment and fails construction; the strict tool reads the environment
  when the argument is \<^verbatim>\<open>None\<close>.
\<close>

theorem empty_explicit_key:
  assumes "env ''CELLREPAIR_API_KEY'' = Some e" and "e \<noteq> []"
  shows "CellRepairAITool.api_key (fst (CellRepairAITool_init env (Some []))) = e \<and>
         (\<exists>m. CellRepairTool_init env (Some []) = Inl (ValueError m)) \<and>
         (\<exists>t. CellRepairTool_init env None = Inr t \<and> CellRepairTool.api_key t = e)"
  using assms by (simp add: CellRepairAITool_init_def CellRepairTool_init_def getenv_def)

theorem empty_explicit_key_witness:
  "[''CELLREPAIR_API_KEY'' \<mapsto> ''from-env''] ''CELLREPAIR_API_KEY'' = Some ''from-env'' \<and> ''from-env'' \<noteq> [] \<and>
   CellRepairAITool.api_key
     (fst (CellRepairAITool_init [''CELLREPAIR_API_KEY'' \<mapsto> ''from-env''] (Some []))) = ''from-env'' \<and>
   (\<exists>m. CellRepairTool_init [''CELLREPAIR_API_KEY'' \<mapsto> ''from-env''] (Some []) = Inl (ValueError m)) \<and>
   (\<exists>t. CellRepairTool_init [''CELLREPAIR_API_KEY'' \<mapsto> ''from-env''] None = Inr t \<and>
        CellRepairTool.api_key t = ''from-env'')"
proof -
  have h1: "[''CELLREPAIR_API_KEY'' \<mapsto> ''from-env''] ''CELLREPAIR_API_KEY'' = Some ''from-env''" by simp
  have h2: "''from-env'' \<noteq> []" by simp
  from empty_explicit_key[where env="[''CELLREPAIR_API_KEY'' \<mapsto> ''from-env'']", OF h1 h2] h1 h2
  show ?thesis by blast
qed

end
